theory Spec2Isabelle
  imports Main "HOL-Library.AList"
begin

section \<open>RenderLayer: the feature store of one visual layer\<close>

text \<open>
  A shallow embedding of \<^verbatim>\<open>src/app/view/renderLayer.ts\<close>. The class keeps a
  dictionary of references to \<^verbatim>\<open>Feature\<close> objects, a counter, a colour and an
  optional reference to a physical layer. Features are mutable objects shared with the
  callers (\<^verbatim>\<open>addFeature\<close> writes the feature's \<^verbatim>\<open>layer\<close> field), so they live
  in an explicit heap and the dictionary holds their addresses.

  The classes \<^verbatim>\<open>Feature\<close> and \<^verbatim>\<open>EdgeFeature\<close> are not part of the sources at
  hand. What \<^verbatim>\<open>RenderLayer\<close> reads and writes of a feature (its class, its
  \<^verbatim>\<open>ID\<close>, its \<^verbatim>\<open>layer\<close>) are fields of the record below, everything else is
  the field \<open>body\<close>; the codecs of a feature (\<^verbatim>\<open>toInterchangeV1\<close>,
  \<^verbatim>\<open>Feature.fromInterchangeV1\<close>, \<^verbatim>\<open>Feature.fromJSON\<close>) are parameters of the
  functions that call them. A factory that throws is a factory that returns \<open>None\<close>.
\<close>

subsection \<open>Feature objects, the heap and run-time values\<close>

datatype feature_class = FeatureClass | EdgeFeatureClass

record 'a feature =
  cls :: feature_class
  ID :: string
  layer :: "nat option"
  body :: 'a

text \<open>
  The heap maps every address to a feature object; \<open>next_addr\<close> is the first address
  that no \<^verbatim>\<open>new\<close> has handed out yet.
\<close>

record 'a heap =
  cells :: "nat \<Rightarrow> 'a feature"
  next_addr :: nat

definition alloc :: "'a heap \<Rightarrow> 'a feature \<Rightarrow> nat \<times> 'a heap" where
  "alloc h f =
     (next_addr h, h\<lparr>cells := (cells h)(next_addr h := f), next_addr := Suc (next_addr h)\<rparr>)"

text \<open>
  \<^verbatim>\<open>addFeature\<close> and \<^verbatim>\<open>containsFeature\<close> check their argument at run time, so
  the argument is any JavaScript value: a string, \<^verbatim>\<open>undefined\<close>, \<^verbatim>\<open>null\<close>,
  an object of some other class, or a reference to a feature object.
\<close>

datatype val = Str string | Undefined | Null | PlainObject | FeatureRef nat

definition instanceof_Feature :: "'a heap \<Rightarrow> val \<Rightarrow> bool" where
  "instanceof_Feature h v =
     (case v of FeatureRef r \<Rightarrow> cls (cells h r) = FeatureClass | _ \<Rightarrow> False)"

definition instanceof_EdgeFeature :: "'a heap \<Rightarrow> val \<Rightarrow> bool" where
  "instanceof_EdgeFeature h v =
     (case v of FeatureRef r \<Rightarrow> cls (cells h r) = EdgeFeatureClass | _ \<Rightarrow> False)"

subsection \<open>Errors\<close>

text \<open>
  Every \<^verbatim>\<open>throw new Error(...)\<close> of the class is one constructor:
  \<open>InvalidArgument\<close> is "Provided value ... is not a Feature!", \<open>NotFound\<close> is
  "Layer does not contain ...", \<open>MalformedInput\<close> is "JSON layer has no features!".
  \<open>FactoryError\<close> is an exception of a feature factory passing through, and
  \<open>TypeError\<close> is the exception of the language for a call of something that is not a
  function.
\<close>

datatype error = InvalidArgument | NotFound | MalformedInput | FactoryError | TypeError

subsection \<open>An object used as a dictionary\<close>

text \<open>
  \<^verbatim>\<open>this.features = {}\<close> is an ordinary object whose prototype is
  \<^verbatim>\<open>Object.prototype\<close>. Its own properties are an association list in the order in
  which \<^verbatim>\<open>for ... in\<close> enumerates them: first the keys that are array indices (the
  decimal numerals without a leading zero, up to 4294967294) in ascending numeric order,
  then the other keys in the order of their creation.
\<close>

definition is_digit :: "char \<Rightarrow> bool" where
  "is_digit c = (c \<in> set ''0123456789'')"

definition digit_value :: "char \<Rightarrow> nat" where
  "digit_value c = of_char c - of_char (CHR ''0'')"

definition decimal_value :: "string \<Rightarrow> nat" where
  "decimal_value k = foldl (\<lambda>n c. 10 * n + digit_value c) 0 k"

definition is_array_index :: "string \<Rightarrow> bool" where
  "is_array_index k =
     (case k of
        [] \<Rightarrow> False
      | c # cs \<Rightarrow>
          list_all is_digit k \<and> (cs = [] \<or> c \<noteq> CHR ''0'') \<and> decimal_value k < 4294967295)"

text \<open>\<open>enumerated_before k k'\<close>: a new key \<open>k\<close> is enumerated before the own key \<open>k'\<close>.\<close>

definition enumerated_before :: "string \<Rightarrow> string \<Rightarrow> bool" where
  "enumerated_before k k' =
     (is_array_index k \<and> (decimal_value k < decimal_value k' \<or> \<not> is_array_index k'))"

fun own_insert :: "(string \<times> 'v) list \<Rightarrow> string \<Rightarrow> 'v \<Rightarrow> (string \<times> 'v) list" where
  "own_insert [] k v = [(k, v)]"
| "own_insert ((k', v') # rest) k v =
     (if enumerated_before k k' then (k, v) # (k', v') # rest
      else (k', v') # own_insert rest k v)"

text \<open>
  The assignment \<^verbatim>\<open>obj[k] = v\<close>. An own property takes the new value where it is.
  Otherwise the prototype is asked: for \<^verbatim>\<open>__proto__\<close> it has a setter, which makes
  \<open>v\<close> the prototype of the object and creates no property; every other member of
  \<^verbatim>\<open>Object.prototype\<close> is a writable data property, so for every other key a new own
  property is created. The list does not record the prototype: what the class does with
  a dictionary whose prototype is a feature depends on the members of
  \<^verbatim>\<open>Feature\<close>, which are not in the sources at hand.
\<close>

definition prop_assign :: "(string \<times> 'v) list \<Rightarrow> string \<Rightarrow> 'v \<Rightarrow> (string \<times> 'v) list" where
  "prop_assign obj k v =
     (if map_of obj k \<noteq> None then AList.update k v obj
      else if k = ''__proto__'' then obj
      else own_insert obj k v)"

text \<open>
  The call \<^verbatim>\<open>obj.hasOwnProperty(k)\<close> first reads the property
  \<^verbatim>\<open>hasOwnProperty\<close> of the object. When the dictionary has an own key of that name,
  what is read is the feature stored there, and calling it throws a
  \<^verbatim>\<open>TypeError\<close>; otherwise it is the function of \<^verbatim>\<open>Object.prototype\<close>.
\<close>

definition hasOwnProperty :: "(string \<times> 'v) list \<Rightarrow> string \<Rightarrow> error + bool" where
  "hasOwnProperty obj k =
     (if map_of obj ''hasOwnProperty'' \<noteq> None then Inl TypeError
      else Inr (map_of obj k \<noteq> None))"

text \<open>
  The read \<^verbatim>\<open>obj[k]\<close> of an own key. The class reads only after
  \<^verbatim>\<open>__ensureFeatureIDExists\<close>, so the other branch is never taken there.
\<close>

definition prop_get :: "(string \<times> nat) list \<Rightarrow> string \<Rightarrow> val" where
  "prop_get obj k =
     (case map_of obj k of None \<Rightarrow> Undefined | Some r \<Rightarrow> FeatureRef r)"

subsection \<open>The class\<close>

text \<open>
  \<open>priv_id\<close>, \<open>priv_type\<close> and \<open>priv_physicalLayer\<close> are the fields
  \<^verbatim>\<open>__id\<close>, \<^verbatim>\<open>__type\<close> and \<^verbatim>\<open>_physicalLayer\<close>.
\<close>

record RenderLayer =
  features :: "(string \<times> nat) list"
  featureCount :: int
  color :: "string option"
  priv_id :: string
  priv_type :: string
  name :: string
  priv_physicalLayer :: "nat option"

text \<open>
  The constructor. An argument left out (or \<^verbatim>\<open>undefined\<close>) is \<open>None\<close> and takes
  the default of its parameter; \<open>newid\<close> is what \<^verbatim>\<open>RenderLayer.generateID()\<close>
  returns. The parameter \<open>group\<close> is not stored anywhere.
\<close>

definition new_RenderLayer ::
  "string \<Rightarrow> string option \<Rightarrow> string option \<Rightarrow> string option \<Rightarrow> RenderLayer" where
  "new_RenderLayer newid name_arg type_arg group_arg =
     (let name_p = (case name_arg of None \<Rightarrow> ''New Layer'' | Some n \<Rightarrow> n);
          type_p = (case type_arg of None \<Rightarrow> ''FLOW'' | Some t \<Rightarrow> t);
          group_p = (case group_arg of None \<Rightarrow> ''0'' | Some g \<Rightarrow> g)
      in \<lparr>features = [], featureCount = 0, color = None, priv_id = newid,
          priv_type = type_p, name = name_p, priv_physicalLayer = None\<rparr>)"

definition set_physicalLayer :: "RenderLayer \<Rightarrow> nat option \<Rightarrow> RenderLayer" where
  "set_physicalLayer s l = s\<lparr>priv_physicalLayer := l\<rparr>"

definition physicalLayer :: "RenderLayer \<Rightarrow> nat option" where
  "physicalLayer s = priv_physicalLayer s"

definition get_type :: "RenderLayer \<Rightarrow> string" where
  "get_type s = priv_type s"


text \<open>
  A method takes the heap and the layer and returns its outcome (\<open>Inl\<close> the exception
  thrown, \<open>Inr\<close> the value returned) together with the heap and the layer as it leaves
  them.
\<close>

definition ensureIsAFeature :: "'a heap \<Rightarrow> val \<Rightarrow> error + unit" where
  "ensureIsAFeature h v =
     (if \<not> instanceof_Feature h v \<and> \<not> instanceof_EdgeFeature h v
      then Inl InvalidArgument else Inr ())"

definition addFeature ::
  "'a heap \<Rightarrow> RenderLayer \<Rightarrow> val \<Rightarrow> (error + unit) \<times> 'a heap \<times> RenderLayer" where
  "addFeature h s v =
     (case ensureIsAFeature h v of
        Inl e \<Rightarrow> (Inl e, h, s)
      | Inr _ \<Rightarrow>
          (case v of
             FeatureRef r \<Rightarrow>
               (let s1 = s\<lparr>features := prop_assign (features s) (ID (cells h r)) r\<rparr>;
                    s2 = s1\<lparr>featureCount := featureCount s1 + 1\<rparr>;
                    h1 = h\<lparr>cells := (cells h)(r := (cells h r)\<lparr>layer := physicalLayer s2\<rparr>)\<rparr>
                in (Inr (), h1, s2))
           | _ \<Rightarrow> (Inl InvalidArgument, h, s)))"

definition containsFeatureID :: "RenderLayer \<Rightarrow> string \<Rightarrow> error + bool" where
  "containsFeatureID s featureID = hasOwnProperty (features s) featureID"

definition containsFeature ::
  "'a heap \<Rightarrow> RenderLayer \<Rightarrow> val \<Rightarrow> (error + bool) \<times> 'a heap \<times> RenderLayer" where
  "containsFeature h s v =
     (case ensureIsAFeature h v of
        Inl e \<Rightarrow> (Inl e, h, s)
      | Inr _ \<Rightarrow>
          (case v of
             FeatureRef r \<Rightarrow> (hasOwnProperty (features s) (ID (cells h r)), h, s)
           | _ \<Rightarrow> (Inl InvalidArgument, h, s)))"

definition ensureFeatureExists :: "'a heap \<Rightarrow> RenderLayer \<Rightarrow> val \<Rightarrow> error + unit" where
  "ensureFeatureExists h s v =
     (case fst (containsFeature h s v) of
        Inl e \<Rightarrow> Inl e
      | Inr b \<Rightarrow> if \<not> b then Inl NotFound else Inr ())"

definition ensureFeatureIDExists :: "RenderLayer \<Rightarrow> string \<Rightarrow> error + unit" where
  "ensureFeatureIDExists s featureID =
     (case containsFeatureID s featureID of
        Inl e \<Rightarrow> Inl e
      | Inr b \<Rightarrow> if \<not> b then Inl NotFound else Inr ())"

definition getFeature :: "RenderLayer \<Rightarrow> string \<Rightarrow> (error + val) \<times> RenderLayer" where
  "getFeature s featureID =
     (case ensureFeatureIDExists s featureID of
        Inl e \<Rightarrow> (Inl e, s)
      | Inr _ \<Rightarrow> (Inr (prop_get (features s) featureID), s))"

definition removeFeatureByID :: "RenderLayer \<Rightarrow> string \<Rightarrow> (error + unit) \<times> RenderLayer" where
  "removeFeatureByID s featureID =
     (case ensureFeatureIDExists s featureID of
        Inl e \<Rightarrow> (Inl e, s)
      | Inr _ \<Rightarrow>
          (let feature = prop_get (features s) featureID;
               s1 = s\<lparr>featureCount := featureCount s - 1\<rparr>;
               s2 = s1\<lparr>features := AList.delete featureID (features s1)\<rparr>
           in (Inr (), s2)))"

definition removeFeature ::
  "'a heap \<Rightarrow> RenderLayer \<Rightarrow> nat \<Rightarrow> (error + unit) \<times> RenderLayer" where
  "removeFeature h s r = removeFeatureByID s (ID (cells h r))"

definition getAllFeaturesFromLayer :: "RenderLayer \<Rightarrow> (string \<times> nat) list" where
  "getAllFeaturesFromLayer s = features s"

subsection \<open>Serialisation\<close>

text \<open>
  The loop of \<^verbatim>\<open>__featuresInterchangeV1\<close>: \<open>output\<close> is the array being filled,
  the last argument the entries of \<^verbatim>\<open>this.features\<close> still to be visited.
\<close>

fun featuresInterchangeV1_loop ::
  "('a feature \<Rightarrow> 'j) \<Rightarrow> 'a heap \<Rightarrow> 'j list \<Rightarrow> (string \<times> nat) list \<Rightarrow> 'j list" where
  "featuresInterchangeV1_loop toIC h output [] = output"
| "featuresInterchangeV1_loop toIC h output ((i, r) # rest) =
     featuresInterchangeV1_loop toIC h (output @ [toIC (cells h r)]) rest"

definition featuresInterchangeV1 ::
  "('a feature \<Rightarrow> 'j) \<Rightarrow> 'a heap \<Rightarrow> RenderLayer \<Rightarrow> 'j list" where
  "featuresInterchangeV1 toIC h s = featuresInterchangeV1_loop toIC h [] (features s)"

text \<open>
  The type \<^verbatim>\<open>RenderLayerInterchangeV1\<close> is declared outside the sources at hand; its
  fields are those of the object literal in \<^verbatim>\<open>toInterchangeV1\<close>.
\<close>

record 'j RenderLayerInterchangeV1 =
  ic_id :: string
  ic_type :: string
  ic_group :: string
  ic_features :: "'j list"
  ic_color :: "string option"


record 'j FeatureLayerJSON =
  fl_color :: "string option"
  fl_features :: "'j list"

definition toFeatureLayerJSON ::
  "('a feature \<Rightarrow> 'j) \<Rightarrow> 'a heap \<Rightarrow> RenderLayer \<Rightarrow> 'j FeatureLayerJSON" where
  "toFeatureLayerJSON toIC h s =
     \<lparr>fl_color = color s, fl_features = featuresInterchangeV1 toIC h s\<rparr>"

subsection \<open>Deserialisation\<close>

text \<open>
  \<^verbatim>\<open>__loadFeaturesFromInterchangeV1\<close> and \<^verbatim>\<open>__loadFeaturesFromJSON\<close>: for every
  element the factory builds a new feature object, which \<^verbatim>\<open>addFeature\<close> then
  stores. An exception ends the loop where it is.
\<close>

fun loadFeaturesFromInterchangeV1 ::
  "('j \<Rightarrow> 'a feature option) \<Rightarrow> 'a heap \<Rightarrow> RenderLayer \<Rightarrow> 'j list
     \<Rightarrow> (error + unit) \<times> 'a heap \<times> RenderLayer" where
  "loadFeaturesFromInterchangeV1 fromIC h s [] = (Inr (), h, s)"
| "loadFeaturesFromInterchangeV1 fromIC h s (j # rest) =
     (case fromIC j of
        None \<Rightarrow> (Inl FactoryError, h, s)
      | Some f \<Rightarrow>
          (case addFeature (snd (alloc h f)) s (FeatureRef (fst (alloc h f))) of
             (Inl e, h2, s2) \<Rightarrow> (Inl e, h2, s2)
           | (Inr u, h2, s2) \<Rightarrow> loadFeaturesFromInterchangeV1 fromIC h2 s2 rest))"

fun loadFeaturesFromJSON ::
  "('j \<Rightarrow> 'a feature option) \<Rightarrow> 'a heap \<Rightarrow> RenderLayer \<Rightarrow> (string \<times> 'j) list
     \<Rightarrow> (error + unit) \<times> 'a heap \<times> RenderLayer" where
  "loadFeaturesFromJSON fromJ h s [] = (Inr (), h, s)"
| "loadFeaturesFromJSON fromJ h s ((i, j) # rest) =
     (case fromJ j of
        None \<Rightarrow> (Inl FactoryError, h, s)
      | Some f \<Rightarrow>
          (case addFeature (snd (alloc h f)) s (FeatureRef (fst (alloc h f))) of
             (Inl e, h2, s2) \<Rightarrow> (Inl e, h2, s2)
           | (Inr u, h2, s2) \<Rightarrow> loadFeaturesFromJSON fromJ h2 s2 rest))"

text \<open>
  \<^verbatim>\<open>if (json.color)\<close>: \<^verbatim>\<open>undefined\<close> and the empty string are falsy.
\<close>

definition truthy :: "string option \<Rightarrow> bool" where
  "truthy c = (case c of None \<Rightarrow> False | Some str \<Rightarrow> str \<noteq> [])"

text \<open>
  The argument of \<^verbatim>\<open>fromJSON\<close> is an object whose properties may be there or not:
  \<open>None\<close> is a property that is not there.
\<close>

record 'j LayerJSON =
  json_type :: "string option"
  json_features :: "(string \<times> 'j) list option"
  json_color :: "string option"

definition fromJSON ::
  "('j \<Rightarrow> 'a feature option) \<Rightarrow> string \<Rightarrow> 'a heap \<Rightarrow> 'j LayerJSON
     \<Rightarrow> (error + RenderLayer) \<times> 'a heap" where
  "fromJSON fromJ newid h json =
     (case json_features json of
        None \<Rightarrow> (Inl MalformedInput, h)
      | Some fs \<Rightarrow>
          (let newLayer = new_RenderLayer newid (json_type json) None None
           in case loadFeaturesFromJSON fromJ h newLayer fs of
                (Inl e, h1, s1) \<Rightarrow> (Inl e, h1)
              | (Inr u, h1, s1) \<Rightarrow>
                  (Inr (if truthy (json_color json) then s1\<lparr>color := json_color json\<rparr> else s1),
                   h1)))"

definition fromInterchangeV1 ::
  "('j \<Rightarrow> 'a feature option) \<Rightarrow> string \<Rightarrow> 'a heap \<Rightarrow> 'j RenderLayerInterchangeV1
     \<Rightarrow> (error + RenderLayer) \<times> 'a heap" where
  "fromInterchangeV1 fromIC newid h json =
     (let newLayer = new_RenderLayer newid (Some (ic_type json)) (Some (ic_group json)) None
      in case loadFeaturesFromInterchangeV1 fromIC h newLayer (ic_features json) of
           (Inl e, h1, s1) \<Rightarrow> (Inl e, h1)
         | (Inr u, h1, s1) \<Rightarrow>
             (Inr (if truthy (ic_color json) then s1\<lparr>color := ic_color json\<rparr> else s1), h1))"

subsection \<open>What a layer holds, seen through the heap\<close>

text \<open>
  \<open>entries h s\<close> are the entries of \<^verbatim>\<open>this.features\<close> in enumeration order,
  each key with the feature object its reference points to. \<open>refs_allocated h s\<close> says
  that every reference the layer holds was handed out by an allocation.
\<close>

definition entries :: "'a heap \<Rightarrow> RenderLayer \<Rightarrow> (string \<times> 'a feature) list" where
  "entries h s = map (\<lambda>(k, r). (k, cells h r)) (features s)"

definition refs_allocated :: "'a heap \<Rightarrow> RenderLayer \<Rightarrow> bool" where
  "refs_allocated h s = (\<forall>r \<in> snd ` set (features s). r < next_addr h)"

subsection \<open>A concrete scenario\<close>

text \<open>
  A plain feature \<open>f1\<close> at address 0 and an edge feature \<open>f2\<close> at address 1; a layer
  named L1 of type FLOW that is empty, holds \<open>f1\<close>, or holds both; and inputs of the
  two deserialisers. The encoding of a feature is here the feature itself.
\<close>

definition feature_A :: "unit feature" where
  "feature_A = \<lparr>cls = FeatureClass, ID = ''f1'', layer = None, body = ()\<rparr>"

definition feature_B :: "unit feature" where
  "feature_B = \<lparr>cls = EdgeFeatureClass, ID = ''f2'', layer = None, body = ()\<rparr>"

definition heap_AB :: "unit heap" where
  "heap_AB = \<lparr>cells = (\<lambda>a. if a = 0 then feature_A else feature_B), next_addr = 2\<rparr>"

definition layer_L1 :: RenderLayer where
  "layer_L1 = new_RenderLayer ''id-L1'' (Some ''L1'') (Some ''FLOW'') None"

definition layer_L1_A :: RenderLayer where
  "layer_L1_A = layer_L1\<lparr>features := [(''f1'', 0)], featureCount := 1\<rparr>"

definition layer_L1_AB :: RenderLayer where
  "layer_L1_AB = layer_L1\<lparr>features := [(''f1'', 0), (''f2'', 1)], featureCount := 2\<rparr>"

definition layer_L1_AB_blank :: RenderLayer where
  "layer_L1_AB_blank = layer_L1_AB\<lparr>color := Some ''''\<rparr>"

definition json_AB :: "unit feature LayerJSON" where
  "json_AB = \<lparr>json_type = Some ''CONTROL'',
              json_features = Some [(''f1'', feature_A), (''f2'', feature_B)],
              json_color = Some ''#ff0000''\<rparr>"

definition json_no_features :: "unit feature LayerJSON" where
  "json_no_features = \<lparr>json_type = Some ''CONTROL'', json_features = None,
                       json_color = None\<rparr>"

definition interchange_CONTROL :: "unit feature RenderLayerInterchangeV1" where
  "interchange_CONTROL = \<lparr>ic_id = ''id-1'', ic_type = ''CONTROL'', ic_group = ''0'',
                          ic_features = [feature_A], ic_color = Some ''#ff0000''\<rparr>"

text \<open>
  Two features whose ids name members of \<^verbatim>\<open>Object.prototype\<close>: \<open>feature_P\<close> at
  address 0 and \<open>feature_H\<close> at address 1 of a second heap, the layer L1 holding
  \<open>feature_H\<close>, and a legacy input whose one entry decodes to \<open>feature_P\<close>.
\<close>

definition feature_P :: "unit feature" where
  "feature_P = \<lparr>cls = FeatureClass, ID = ''__proto__'', layer = None, body = ()\<rparr>"

definition feature_H :: "unit feature" where
  "feature_H = \<lparr>cls = FeatureClass, ID = ''hasOwnProperty'', layer = None, body = ()\<rparr>"

definition heap_PH :: "unit heap" where
  "heap_PH = \<lparr>cells = (\<lambda>a. if a = 0 then feature_P else feature_H), next_addr = 2\<rparr>"

definition layer_L1_H :: RenderLayer where
  "layer_L1_H = layer_L1\<lparr>features := [(''hasOwnProperty'', 1)], featureCount := 1\<rparr>"

definition json_P :: "unit feature LayerJSON" where
  "json_P = \<lparr>json_type = Some ''FLOW'', json_features = Some [(''a'', feature_P)],
             json_color = None\<rparr>"

lemmas scenario_defs = feature_A_def feature_B_def heap_AB_def layer_L1_def layer_L1_A_def
  layer_L1_AB_def layer_L1_AB_blank_def json_AB_def json_no_features_def
  interchange_CONTROL_def feature_P_def feature_H_def heap_PH_def layer_L1_H_def json_P_def

section \<open>Facts about the methods\<close>

subsection \<open>The dictionary\<close>


lemma map_of_own_insert:
  "map_of obj k = None \<Longrightarrow> map_of (own_insert obj k v) = (map_of obj)(k \<mapsto> v)"
  by (induction obj) (auto simp: fun_eq_iff split: if_splits)

lemma set_own_insert: "set (own_insert obj k v) = insert (k, v) (set obj)"
  by (induction obj) (auto split: if_splits)

lemma keys_own_insert: "fst ` set (own_insert obj k v) = insert k (fst ` set obj)"
  by (simp add: set_own_insert)

lemma values_own_insert: "snd ` set (own_insert obj k v) = insert v (snd ` set obj)"
  by (simp add: set_own_insert)

lemma map_of_prop_assign:
  "k \<noteq> ''__proto__'' \<Longrightarrow> map_of (prop_assign obj k v) = (map_of obj)(k \<mapsto> v)"
  by (simp add: prop_assign_def update_conv' map_of_own_insert)

lemma prop_assign_proto:
  "map_of obj ''__proto__'' = None \<Longrightarrow> prop_assign obj ''__proto__'' v = obj"
  by (simp add: prop_assign_def)

lemma values_prop_assign: "snd ` set (prop_assign obj k v) \<subseteq> insert v (snd ` set obj)"
proof -
  have "snd ` set (AList.update k v al) \<subseteq> insert v (snd ` set al)"
    for al :: "(string \<times> 'a) list"
    by (induction al) auto
  then show ?thesis
    by (auto simp: prop_assign_def values_own_insert)
qed


text \<open>
  The keys of a dictionary that the assignments of the class build from the empty object
  are distinct and in enumeration order, and \<^verbatim>\<open>__proto__\<close> is not among them.
\<close>

lemma enumerated_before_trans:
  "enumerated_before a b \<Longrightarrow> \<not> enumerated_before c b \<Longrightarrow> \<not> enumerated_before c a"
  by (auto simp: enumerated_before_def)

lemma sorted_own_insert:
  assumes "sorted_wrt (\<lambda>a b. \<not> enumerated_before b a) (map fst obj)"
  shows "sorted_wrt (\<lambda>a b. \<not> enumerated_before b a) (map fst (own_insert obj k v))"
  using assms
proof (induction obj)
  case Nil
  then show ?case by simp
next
  case (Cons p obj)
  obtain k' v' where p: "p = (k', v')" by (cases p)
  show ?case
  proof (cases "enumerated_before k k'")
    case True
    have "\<not> enumerated_before k' k"
      using True by (auto simp: enumerated_before_def)
    moreover have "\<not> enumerated_before y k" if "y \<in> fst ` set obj" for y
    proof -
      from Cons.prems that have "\<not> enumerated_before y k'" by (auto simp: p)
      with True show ?thesis by (rule enumerated_before_trans)
    qed
    ultimately show ?thesis
      using Cons.prems True by (auto simp: p)
  next
    case False
    then show ?thesis
      using Cons by (auto simp: p keys_own_insert)
  qed
qed

lemma dictionary_prop_assign:
  assumes "distinct (map fst obj)"
    and "sorted_wrt (\<lambda>a b. \<not> enumerated_before b a) (map fst obj)"
    and "''__proto__'' \<notin> fst ` set obj"
  shows "distinct (map fst (prop_assign obj k v)) \<and>
         sorted_wrt (\<lambda>a b. \<not> enumerated_before b a) (map fst (prop_assign obj k v)) \<and>
         ''__proto__'' \<notin> fst ` set (prop_assign obj k v)"
proof -
  have d: "distinct (map fst (own_insert al k v))"
    if "distinct (map fst al)" "k \<notin> fst ` set al" for al :: "(string \<times> 'a) list"
    using that by (induction al) (auto simp: keys_own_insert)
  have u: "map fst (AList.update k v al) = map fst al"
    if "map_of al k \<noteq> None" for al :: "(string \<times> 'a) list"
    using that by (induction al) auto
  show ?thesis
  proof (cases "map_of obj k = None")
    case True
    then have "k \<notin> fst ` set obj" by (simp add: map_of_eq_None_iff)
    with assms True show ?thesis
      by (auto simp: prop_assign_def d sorted_own_insert keys_own_insert)
  next
    case False
    then have "k \<in> fst ` set obj" by (simp add: map_of_eq_None_iff)
    with assms False show ?thesis
      by (auto simp: prop_assign_def u dom_update)
  qed
qed

lemma dictionary_delete:
  assumes "distinct (map fst obj)"
    and "sorted_wrt (\<lambda>a b. \<not> enumerated_before b a) (map fst obj)"
    and "''__proto__'' \<notin> fst ` set obj"
  shows "distinct (map fst (AList.delete k obj)) \<and>
         sorted_wrt (\<lambda>a b. \<not> enumerated_before b a) (map fst (AList.delete k obj)) \<and>
         ''__proto__'' \<notin> fst ` set (AList.delete k obj)"
proof -
  have "sorted_wrt P (map fst (AList.delete k al))" if "sorted_wrt P (map fst al)"
    for P and al :: "(string \<times> 'a) list"
    using that by (induction al) (auto simp: delete_keys)
  with assms dom_delete_subset [of k obj] show ?thesis
    by (auto simp: distinct_delete)
qed

lemma hasOwnProperty_plain:
  "map_of obj ''hasOwnProperty'' = None \<Longrightarrow> hasOwnProperty obj k = Inr (map_of obj k \<noteq> None)"
  by (simp add: hasOwnProperty_def)

lemma hasOwnProperty_shadowed:
  "map_of obj ''hasOwnProperty'' = Some r \<Longrightarrow> hasOwnProperty obj k = Inl TypeError"
  by (simp add: hasOwnProperty_def)

subsection \<open>The guards and the single-step methods\<close>


lemma ensureIsAFeature_Inr:
  "ensureIsAFeature h v = Inr u \<longleftrightarrow> (\<exists>r. v = FeatureRef r)"
  by (cases v; cases "cls (cells h (case v of FeatureRef r \<Rightarrow> r | _ \<Rightarrow> 0))")
     (auto simp: ensureIsAFeature_def instanceof_Feature_def instanceof_EdgeFeature_def)

lemma addFeature_FeatureRef:
  "addFeature h s (FeatureRef r) =
     (Inr (),
      h\<lparr>cells := (cells h)(r := (cells h r)\<lparr>layer := priv_physicalLayer s\<rparr>)\<rparr>,
      s\<lparr>features := prop_assign (features s) (ID (cells h r)) r,
        featureCount := featureCount s + 1\<rparr>)"
  using ensureIsAFeature_Inr [of h "FeatureRef r" "()"]
  by (simp add: addFeature_def Let_def physicalLayer_def)

lemma containsFeature_FeatureRef:
  "containsFeature h s (FeatureRef r) = (hasOwnProperty (features s) (ID (cells h r)), h, s)"
  using ensureIsAFeature_Inr [of h "FeatureRef r" "()"]
  by (simp add: containsFeature_def)

text \<open>
  Adding a feature whose id is neither \<^verbatim>\<open>__proto__\<close> nor \<^verbatim>\<open>hasOwnProperty\<close>
  to a layer that holds no feature of id \<^verbatim>\<open>hasOwnProperty\<close>.
\<close>

lemma addFeature_then_contains:
  assumes "ID (cells h r) \<noteq> ''__proto__''" and "ID (cells h r) \<noteq> ''hasOwnProperty''"
    and "map_of (features s) ''hasOwnProperty'' = None"
  shows "\<exists>h1 s1. addFeature h s (FeatureRef r) = (Inr (), h1, s1) \<and>
           fst (containsFeature h1 s1 (FeatureRef r)) = Inr True \<and>
           featureCount s1 = featureCount s + 1 \<and>
           prop_get (features s1) (ID (cells h r)) = FeatureRef r \<and>
           ID (cells h1 r) = ID (cells h r) \<and>
           layer (cells h1 r) = physicalLayer s \<and>
           physicalLayer s1 = physicalLayer s"
  using assms
  by (simp add: addFeature_FeatureRef containsFeature_FeatureRef hasOwnProperty_def
      map_of_prop_assign prop_get_def physicalLayer_def)

lemma removeFeatureByID_absent:
  assumes "map_of (features s) ''hasOwnProperty'' = None" and "map_of (features s) k = None"
  shows "removeFeatureByID s k = (Inl NotFound, s)"
  using assms
  by (simp add: removeFeatureByID_def ensureFeatureIDExists_def containsFeatureID_def
      hasOwnProperty_def)

lemma removeFeatureByID_present:
  assumes "map_of (features s) ''hasOwnProperty'' = None" and "map_of (features s) k = Some r"
  shows "removeFeatureByID s k =
           (Inr (), s\<lparr>featureCount := featureCount s - 1,
                     features := AList.delete k (features s)\<rparr>)"
  using assms
  by (simp add: removeFeatureByID_def ensureFeatureIDExists_def containsFeatureID_def
      hasOwnProperty_def Let_def)

lemma removeFeatureByID_shadowed:
  "map_of (features s) ''hasOwnProperty'' = Some r \<Longrightarrow>
     removeFeatureByID s k = (Inl TypeError, s)"
  by (simp add: removeFeatureByID_def ensureFeatureIDExists_def containsFeatureID_def
      hasOwnProperty_def)

lemma getFeature_plain:
  assumes "map_of (features s) ''hasOwnProperty'' = None"
  shows "getFeature s k =
           (case map_of (features s) k of
              None \<Rightarrow> (Inl NotFound, s)
            | Some r \<Rightarrow> (Inr (FeatureRef r), s))"
  using assms
  by (simp add: getFeature_def ensureFeatureIDExists_def containsFeatureID_def
      hasOwnProperty_def prop_get_def split: option.splits)

lemma getFeature_shadowed:
  "map_of (features s) ''hasOwnProperty'' = Some r \<Longrightarrow> getFeature s k = (Inl TypeError, s)"
  by (simp add: getFeature_def ensureFeatureIDExists_def containsFeatureID_def
      hasOwnProperty_def)

text \<open>
  The methods keep the keys of the dictionary distinct, in enumeration order and free of
  \<^verbatim>\<open>__proto__\<close>; so does the constructor, which starts from no keys.
\<close>

lemma dictionary_addFeature:
  assumes "distinct (map fst (features s))"
    and "sorted_wrt (\<lambda>a b. \<not> enumerated_before b a) (map fst (features s))"
    and "''__proto__'' \<notin> fst ` set (features s)"
    and "addFeature h s v = (res, h1, s1)"
  shows "distinct (map fst (features s1)) \<and>
         sorted_wrt (\<lambda>a b. \<not> enumerated_before b a) (map fst (features s1)) \<and>
         ''__proto__'' \<notin> fst ` set (features s1)"
proof (cases "\<exists>r. v = FeatureRef r")
  case True
  then obtain r where "v = FeatureRef r" ..
  with assms(4) have "features s1 = prop_assign (features s) (ID (cells h r)) r"
    by (auto simp: addFeature_FeatureRef)
  with dictionary_prop_assign [OF assms(1,2,3)] show ?thesis by simp
next
  case False
  then have "ensureIsAFeature h v = Inl InvalidArgument"
    using ensureIsAFeature_Inr [of h v "()"]
    by (cases "ensureIsAFeature h v") (auto simp: ensureIsAFeature_def split: if_splits)
  with assms show ?thesis by (auto simp: addFeature_def)
qed

lemma dictionary_removeFeatureByID:
  assumes "distinct (map fst (features s))"
    and "sorted_wrt (\<lambda>a b. \<not> enumerated_before b a) (map fst (features s))"
    and "''__proto__'' \<notin> fst ` set (features s)"
    and "removeFeatureByID s k = (res, s1)"
  shows "distinct (map fst (features s1)) \<and>
         sorted_wrt (\<lambda>a b. \<not> enumerated_before b a) (map fst (features s1)) \<and>
         ''__proto__'' \<notin> fst ` set (features s1)"
proof (cases "ensureFeatureIDExists s k")
  case (Inl e)
  with assms show ?thesis by (auto simp: removeFeatureByID_def)
next
  case (Inr u)
  with assms(4) have "features s1 = AList.delete k (features s)"
    by (auto simp: removeFeatureByID_def Let_def)
  with dictionary_delete [OF assms(1,2,3)] show ?thesis by simp
qed

lemma new_RenderLayer_fields:
  "features (new_RenderLayer newid n t g) = []"
  "featureCount (new_RenderLayer newid n t g) = 0"
  "color (new_RenderLayer newid n t g) = None"
  "priv_id (new_RenderLayer newid n t g) = newid"
  "priv_type (new_RenderLayer newid n t g) = (case t of None \<Rightarrow> ''FLOW'' | Some x \<Rightarrow> x)"
  "name (new_RenderLayer newid n t g) = (case n of None \<Rightarrow> ''New Layer'' | Some x \<Rightarrow> x)"
  "priv_physicalLayer (new_RenderLayer newid n t g) = None"
  by (simp_all add: new_RenderLayer_def)

lemma refs_allocated_new [simp]: "refs_allocated h (new_RenderLayer newid n t g)"
  by (simp add: refs_allocated_def new_RenderLayer_def)

lemma entries_new [simp]: "entries h (new_RenderLayer newid n t g) = []"
  by (simp add: entries_def new_RenderLayer_fields)

subsection \<open>The loading loops\<close>

text \<open>The two loops differ only in what they enumerate.\<close>

lemma loadFeaturesFromJSON_eq:
  "loadFeaturesFromJSON fromJ h s kvs = loadFeaturesFromInterchangeV1 fromJ h s (map snd kvs)"
  by (induction kvs arbitrary: h s) (auto split: option.splits sum.splits prod.splits)

text \<open>One turn of the loop, when the factory returns a feature.\<close>

lemma load_step:
  "fromIC j = Some f \<Longrightarrow>
   loadFeaturesFromInterchangeV1 fromIC h s (j # rest) =
     loadFeaturesFromInterchangeV1 fromIC
       (h\<lparr>next_addr := Suc (next_addr h),
          cells := (cells h)(next_addr h := f\<lparr>layer := priv_physicalLayer s\<rparr>)\<rparr>)
       (s\<lparr>features := prop_assign (features s) (ID f) (next_addr h),
          featureCount := featureCount s + 1\<rparr>)
       rest"
  by (simp add: alloc_def addFeature_FeatureRef)

lemma load_fail:
  "\<exists>j \<in> set js. fromIC j = None \<Longrightarrow>
   fst (loadFeaturesFromInterchangeV1 fromIC h s js) = Inl FactoryError"
proof (induction js arbitrary: h s)
  case Nil
  then show ?case by simp
next
  case (Cons j js)
  show ?case
  proof (cases "fromIC j")
    case None
    then show ?thesis by simp
  next
    case (Some f)
    with Cons.prems have "\<exists>j \<in> set js. fromIC j = None" by auto
    then show ?thesis
      unfolding load_step [of fromIC j f, OF Some] by (rule Cons.IH)
  qed
qed

lemma all_decode:
  "\<forall>j \<in> set js. fromIC j \<noteq> None \<Longrightarrow> \<exists>fs. map fromIC js = map Some fs"
  by (intro exI [of _ "map (the \<circ> fromIC) js"]) auto

text \<open>
  The loop, when every element decodes: it returns, the counter has grown by the number
  of elements, the other fields of the layer are as before, and so is every object that
  was in the heap.
\<close>

lemma load_fields:
  assumes "loadFeaturesFromInterchangeV1 fromIC h s js = (res, h', s')"
    and "map fromIC js = map Some fs"
    and "refs_allocated h s"
  shows "res = Inr () \<and>
         featureCount s' = featureCount s + int (length fs) \<and>
         color s' = color s \<and> priv_id s' = priv_id s \<and> priv_type s' = priv_type s \<and>
         name s' = name s \<and> priv_physicalLayer s' = priv_physicalLayer s \<and>
         refs_allocated h' s' \<and> next_addr h \<le> next_addr h' \<and>
         (\<forall>a < next_addr h. cells h' a = cells h a)"
  using assms
proof (induction js arbitrary: h s fs)
  case Nil
  then show ?case by simp
next
  case (Cons j js)
  from Cons.prems(2) obtain f fs' where fs: "fs = f # fs'" and j: "fromIC j = Some f"
    and rest: "map fromIC js = map Some fs'"
    by (cases fs) auto
  let ?h1 = "h\<lparr>next_addr := Suc (next_addr h),
          cells := (cells h)(next_addr h := f\<lparr>layer := priv_physicalLayer s\<rparr>)\<rparr>"
  let ?s1 = "s\<lparr>features := prop_assign (features s) (ID f) (next_addr h),
          featureCount := featureCount s + 1\<rparr>"
  have run: "loadFeaturesFromInterchangeV1 fromIC ?h1 ?s1 js = (res, h', s')"
    using Cons.prems(1) by (simp only: load_step [of fromIC j f, OF j])
  have alloc1: "refs_allocated ?h1 ?s1"
    using Cons.prems(3) values_prop_assign [of "features s" "ID f" "next_addr h"]
    by (fastforce simp: refs_allocated_def less_Suc_eq)
  from Cons.IH [OF run rest alloc1] show ?case
    by (auto simp: fs)
qed

text \<open>
  What the layer holds after the loop, when no decoded feature has the id
  \<^verbatim>\<open>__proto__\<close>: every decoded feature is stored under its id with the layer's physical
  layer as back-reference, a later feature replacing an earlier one of the same id.
\<close>

lemma map_of_entries: "map_of (entries h s) = map_option (cells h) \<circ> map_of (features s)"
  by (simp add: entries_def map_of_map)

lemma entries_assign_fresh:
  assumes "refs_allocated h s" and "k \<noteq> ''__proto__''"
  shows "map_of (entries (h\<lparr>next_addr := m, cells := (cells h)(next_addr h := f')\<rparr>)
                    (s\<lparr>features := prop_assign (features s) k (next_addr h),
                       featureCount := c\<rparr>))
         = (map_of (entries h s))(k \<mapsto> f')"
proof (rule ext)
  fix x
  have old: "r \<noteq> next_addr h" if "map_of (features s) x = Some r" for r
  proof -
    from that have "r \<in> snd ` set (features s)"
      by (force dest: map_of_SomeD)
    with assms(1) show ?thesis by (auto simp: refs_allocated_def)
  qed
  show "map_of (entries (h\<lparr>next_addr := m, cells := (cells h)(next_addr h := f')\<rparr>)
                    (s\<lparr>features := prop_assign (features s) k (next_addr h),
                       featureCount := c\<rparr>)) x
         = ((map_of (entries h s))(k \<mapsto> f')) x"
    using old by (cases "map_of (features s) x")
      (auto simp: map_of_entries map_of_prop_assign [OF assms(2)])
qed

lemma load_entries:
  assumes "loadFeaturesFromInterchangeV1 fromIC h s js = (res, h', s')"
    and "map fromIC js = map Some fs"
    and "refs_allocated h s"
    and "''__proto__'' \<notin> ID ` set fs"
  shows "map_of (entries h' s') =
           map_of (entries h s) ++
             map_of (rev (map (\<lambda>f. (ID f, f\<lparr>layer := priv_physicalLayer s\<rparr>)) fs))"
  using assms
proof (induction js arbitrary: h s fs)
  case Nil
  then show ?case by simp
next
  case (Cons j js)
  from Cons.prems(2) obtain f fs' where fs: "fs = f # fs'" and j: "fromIC j = Some f"
    and rest: "map fromIC js = map Some fs'"
    by (cases fs) auto
  let ?h1 = "h\<lparr>next_addr := Suc (next_addr h),
          cells := (cells h)(next_addr h := f\<lparr>layer := priv_physicalLayer s\<rparr>)\<rparr>"
  let ?s1 = "s\<lparr>features := prop_assign (features s) (ID f) (next_addr h),
          featureCount := featureCount s + 1\<rparr>"
  have run: "loadFeaturesFromInterchangeV1 fromIC ?h1 ?s1 js = (res, h', s')"
    using Cons.prems(1) by (simp only: load_step [of fromIC j f, OF j])
  have alloc1: "refs_allocated ?h1 ?s1"
    using Cons.prems(3) values_prop_assign [of "features s" "ID f" "next_addr h"]
    by (fastforce simp: refs_allocated_def less_Suc_eq)
  have np: "ID f \<noteq> ''__proto__''" and np': "''__proto__'' \<notin> ID ` set fs'"
    using Cons.prems(4) by (auto simp: fs)
  have e1: "map_of (entries ?h1 ?s1) =
      (map_of (entries h s))(ID f \<mapsto> f\<lparr>layer := priv_physicalLayer s\<rparr>)"
    using Cons.prems(3) np by (rule entries_assign_fresh)
  from Cons.IH [OF run rest alloc1 np'] show ?case
    by (intro ext) (simp add: e1 fs map_add_def split: option.splits)
qed


subsection \<open>The two deserialisers\<close>

lemma fromJSON_returns:
  assumes "json_features json = Some kvs" and "map fromJ (map snd kvs) = map Some fs"
  shows "\<exists>s1 h1. fromJSON fromJ newid h json = (Inr s1, h1) \<and>
           (''__proto__'' \<notin> ID ` set fs \<longrightarrow>
              map_of (entries h1 s1) =
                map_of (rev (map (\<lambda>f. (ID f, f\<lparr>layer := None\<rparr>)) fs))) \<and>
           featureCount s1 = int (length fs) \<and>
           color s1 = (if truthy (json_color json) then json_color json else None) \<and>
           priv_type s1 = ''FLOW'' \<and>
           name s1 = (case json_type json of None \<Rightarrow> ''New Layer'' | Some t \<Rightarrow> t) \<and>
           priv_id s1 = newid"
proof -
  let ?new = "new_RenderLayer newid (json_type json) None None"
  obtain res h' s' where run:
    "loadFeaturesFromInterchangeV1 fromJ h ?new (map snd kvs) = (res, h', s')"
    by (cases "loadFeaturesFromInterchangeV1 fromJ h ?new (map snd kvs)") auto
  note ok = load_fields [OF run assms(2) refs_allocated_new]
  have res: "res = Inr ()" using ok by simp
  have "fromJSON fromJ newid h json =
      (Inr (if truthy (json_color json) then s'\<lparr>color := json_color json\<rparr> else s'), h')"
    by (simp add: fromJSON_def assms(1) loadFeaturesFromJSON_eq run res)
  moreover have "map_of (entries h' s') =
      map_of (rev (map (\<lambda>f. (ID f, f\<lparr>layer := None\<rparr>)) fs))"
    if "''__proto__'' \<notin> ID ` set fs"
    using load_entries [OF run assms(2) refs_allocated_new that]
    by (simp add: new_RenderLayer_fields)
  moreover have "entries h' (s'\<lparr>color := c\<rparr>) = entries h' s'" for c
    by (simp add: entries_def)
  ultimately show ?thesis
    using ok by (simp add: new_RenderLayer_fields)
qed

lemma fromJSON_failure:
  assumes "json_features json = Some kvs" and "\<exists>j \<in> snd ` set kvs. fromJ j = None"
  shows "fst (fromJSON fromJ newid h json) = Inl FactoryError"
proof -
  let ?new = "new_RenderLayer newid (json_type json) None None"
  have "fst (loadFeaturesFromInterchangeV1 fromJ h ?new (map snd kvs)) = Inl FactoryError"
    using assms(2) by (intro load_fail) auto
  then show ?thesis
    by (cases "loadFeaturesFromInterchangeV1 fromJ h ?new (map snd kvs)")
       (simp add: fromJSON_def assms(1) loadFeaturesFromJSON_eq)
qed

text \<open>
  \<^verbatim>\<open>fromJSON\<close> throws MalformedInput exactly when the input has no property
  \<open>features\<close>.
\<close>

lemma fromJSON_MalformedInput_iff:
  "fst (fromJSON fromJ newid h json) = Inl MalformedInput \<longleftrightarrow> json_features json = None"
proof (cases "json_features json")
  case None
  then show ?thesis by (simp add: fromJSON_def)
next
  case (Some kvs)
  show ?thesis
  proof (cases "\<exists>j \<in> snd ` set kvs. fromJ j = None")
    case True
    from fromJSON_failure [OF Some True] show ?thesis by (simp add: Some)
  next
    case False
    then have "\<forall>j \<in> set (map snd kvs). fromJ j \<noteq> None" by auto
    from all_decode [OF this] obtain fs where "map fromJ (map snd kvs) = map Some fs" ..
    from fromJSON_returns [OF Some this, of newid h] show ?thesis by (auto simp: Some)
  qed
qed


subsection \<open>The keys of the scenario\<close>



section \<open>The claims\<close>


text \<open>
  C1 (\<open>featureCount\<close> equals the number of entries of \<open>features\<close>, also after an
  \<^verbatim>\<open>addFeature\<close> that overwrites). \<^verbatim>\<open>addFeature\<close> adds one to the counter
  whether or not the id is already a key. In the scenario, adding the feature at address 0
  to the empty layer twice leaves one entry and a counter of two.
\<close>

theorem addFeature_same_id_twice:
  "(case addFeature heap_AB layer_L1 (FeatureRef 0) of
      (res1, h1, s1) \<Rightarrow>
        (case addFeature h1 s1 (FeatureRef 0) of
           (res2, h2, s2) \<Rightarrow>
             res1 = Inr () \<and> res2 = Inr () \<and> featureCount s1 = 1 \<and> length (features s1) = 1 \<and>
             featureCount s2 = 2 \<and> length (features s2) = 1))"
  by (simp add: addFeature_FeatureRef scenario_defs new_RenderLayer_def prop_assign_def
      enumerated_before_def is_array_index_def is_digit_def)




text \<open>
  C3 (\<^verbatim>\<open>fromInterchangeV1\<close> builds a layer whose type is \<^verbatim>\<open>json.type\<close>). The
  constructor takes (name, type, group) and is called with
  (\<^verbatim>\<open>json.type\<close>, \<^verbatim>\<open>json.group\<close>): the type of the new layer is the group of the
  input and its name is the type of the input. In the scenario, an input of type CONTROL
  and group 0 gives a layer of type \<open>''0''\<close> named CONTROL.
\<close>

theorem fromInterchangeV1_type_is_group:
  "fst (fromInterchangeV1 Some ''id-2'' heap_AB interchange_CONTROL) =
     Inr \<lparr>features = [(''f1'', 2)], featureCount = 1, color = Some ''#ff0000'',
          priv_id = ''id-2'', priv_type = ''0'', name = ''CONTROL'',
          priv_physicalLayer = None\<rparr> \<and>
   ic_type interchange_CONTROL = ''CONTROL''"
  by (simp add: fromInterchangeV1_def scenario_defs new_RenderLayer_def alloc_def
      addFeature_FeatureRef truthy_def prop_assign_def)


text \<open>
  C5 (after \<^verbatim>\<open>addFeature\<close> of a valid feature, \<^verbatim>\<open>containsFeature\<close> is true
  and the feature is the entry at its id). This holds for the ids of
  \<open>addFeature_then_contains\<close>, and fails for two ids. For a feature of id
  \<^verbatim>\<open>__proto__\<close> the assignment of \<^verbatim>\<open>addFeature\<close> creates no entry, the counter
  still grows, and \<^verbatim>\<open>containsFeature\<close> answers false. For a feature of id
  \<^verbatim>\<open>hasOwnProperty\<close> the entry is created and \<^verbatim>\<open>containsFeature\<close> throws a
  \<^verbatim>\<open>TypeError\<close>, where \<^verbatim>\<open>fromJSON\<close> calls
  \<^verbatim>\<open>Object.prototype.hasOwnProperty.call\<close>.
\<close>

theorem addFeature_reserved_ids:
  "(case addFeature heap_PH layer_L1 (FeatureRef 0) of
      (res, h1, s1) \<Rightarrow>
        res = Inr () \<and> ID (cells heap_PH 0) = ''__proto__'' \<and>
        features s1 = [] \<and> featureCount s1 = 1 \<and>
        fst (containsFeature h1 s1 (FeatureRef 0)) = Inr False) \<and>
   (case addFeature heap_PH layer_L1 (FeatureRef 1) of
      (res, h1, s1) \<Rightarrow>
        res = Inr () \<and> ID (cells heap_PH 1) = ''hasOwnProperty'' \<and>
        features s1 = [(''hasOwnProperty'', 1)] \<and> featureCount s1 = 1 \<and>
        fst (containsFeature h1 s1 (FeatureRef 1)) = Inl TypeError)"
  by (simp add: addFeature_FeatureRef containsFeature_FeatureRef scenario_defs
      new_RenderLayer_def prop_assign_def hasOwnProperty_def)

text \<open>
  C6 (\<^verbatim>\<open>removeFeatureByID\<close> throws NotFound for an absent id, removes a present
  one, and undoes an \<^verbatim>\<open>addFeature\<close>). This holds on a layer that holds no feature of
  id \<^verbatim>\<open>hasOwnProperty\<close> (\<open>removeFeatureByID_absent\<close>,
  \<open>removeFeatureByID_present\<close>). After \<^verbatim>\<open>addFeature\<close> of a feature of id
  \<^verbatim>\<open>__proto__\<close>, removing that id throws NotFound and the counter stays one higher
  than before the add. On the layer that \<^verbatim>\<open>addFeature\<close> of a feature of id
  \<^verbatim>\<open>hasOwnProperty\<close> leaves, the call throws a \<^verbatim>\<open>TypeError\<close> for an absent
  id and for the present one.
\<close>

theorem removeFeatureByID_reserved_ids:
  "(case addFeature heap_PH layer_L1 (FeatureRef 0) of
      (res, h1, s1) \<Rightarrow>
        res = Inr () \<and> ID (cells heap_PH 0) = ''__proto__'' \<and>
        featureCount layer_L1 = 0 \<and> featureCount s1 = 1 \<and>
        removeFeatureByID s1 ''__proto__'' = (Inl NotFound, s1)) \<and>
   snd (snd (addFeature heap_PH layer_L1 (FeatureRef 1))) = layer_L1_H \<and>
   map_of (features layer_L1_H) ''zz'' = None \<and>
   removeFeatureByID layer_L1_H ''zz'' = (Inl TypeError, layer_L1_H) \<and>
   map_of (features layer_L1_H) ''hasOwnProperty'' = Some 1 \<and>
   removeFeatureByID layer_L1_H ''hasOwnProperty'' = (Inl TypeError, layer_L1_H)"
  by (simp add: addFeature_FeatureRef scenario_defs new_RenderLayer_def prop_assign_def
      removeFeatureByID_def ensureFeatureIDExists_def containsFeatureID_def
      hasOwnProperty_def)

text \<open>
  C7 (\<^verbatim>\<open>getFeature\<close> throws NotFound exactly for an absent id and returns the stored
  reference otherwise). This holds on a layer that holds no feature of id
  \<^verbatim>\<open>hasOwnProperty\<close> (\<open>getFeature_plain\<close>). On the layer that
  \<^verbatim>\<open>addFeature\<close> of a feature of that id leaves, the call throws a
  \<^verbatim>\<open>TypeError\<close> for an absent id and for the present one.
\<close>

theorem getFeature_hasOwnProperty:
  "snd (snd (addFeature heap_PH layer_L1 (FeatureRef 1))) = layer_L1_H \<and>
   map_of (features layer_L1_H) ''zz'' = None \<and>
   getFeature layer_L1_H ''zz'' = (Inl TypeError, layer_L1_H) \<and>
   map_of (features layer_L1_H) ''hasOwnProperty'' = Some 1 \<and>
   getFeature layer_L1_H ''hasOwnProperty'' = (Inl TypeError, layer_L1_H)"
  by (simp add: addFeature_FeatureRef scenario_defs new_RenderLayer_def prop_assign_def
      getFeature_def ensureFeatureIDExists_def containsFeatureID_def hasOwnProperty_def)



text \<open>
  C9 (\<^verbatim>\<open>fromJSON\<close> throws MalformedInput exactly when the input has no property
  \<open>features\<close>, and builds the features from the entries of \<^verbatim>\<open>json.features\<close>).
  The first part holds (\<open>fromJSON_MalformedInput_iff\<close>), and so does the second when no
  entry decodes to a feature of id \<^verbatim>\<open>__proto__\<close> (\<open>fromJSON_returns\<close>). An entry
  that decodes to such a feature goes through \<^verbatim>\<open>addFeature\<close> and is counted, but
  the layer that comes back has no entry for it.
\<close>

theorem fromJSON_proto_id:
  "json_features json_P = Some [(''a'', feature_P)] \<and>
   ID feature_P = ''__proto__'' \<and>
   fst (fromJSON Some ''id-2'' heap_AB json_P) =
     Inr \<lparr>features = [], featureCount = 1, color = None, priv_id = ''id-2'',
          priv_type = ''FLOW'', name = ''FLOW'', priv_physicalLayer = None\<rparr>"
  by (simp add: fromJSON_def scenario_defs new_RenderLayer_def alloc_def
      addFeature_FeatureRef truthy_def prop_assign_def)

text \<open>
  C10 (\<^verbatim>\<open>fromJSON\<close> passes \<^verbatim>\<open>json.type\<close> as the name): for an input with the
  property \<open>features\<close>, the layer that the call returns has type \<open>''FLOW''\<close>, the
  default, whatever \<^verbatim>\<open>json.type\<close> is, and its name is \<^verbatim>\<open>json.type\<close> (the default
  name when the input has no type). The call returns unless the factory throws.
\<close>

theorem fromJSON_type_is_FLOW:
  assumes "json_features json = Some kvs"
  shows "case fromJSON fromJ newid h json of
           (Inr s1, h1) \<Rightarrow>
             get_type s1 = ''FLOW'' \<and>
             name s1 = (case json_type json of None \<Rightarrow> ''New Layer'' | Some t \<Rightarrow> t)
         | (Inl e, h1) \<Rightarrow> e = FactoryError \<and> (\<exists>j \<in> snd ` set kvs. fromJ j = None)"
proof (cases "\<exists>j \<in> snd ` set kvs. fromJ j = None")
  case True
  from fromJSON_failure [OF assms True, of newid h] show ?thesis
    using True by (cases "fromJSON fromJ newid h json") auto
next
  case False
  then have "\<forall>j \<in> set (map snd kvs). fromJ j \<noteq> None" by auto
  from all_decode [OF this] obtain fs where fs: "map fromJ (map snd kvs) = map Some fs" ..
  from fromJSON_returns [OF assms fs, of newid h] show ?thesis
    by (auto simp: get_type_def)
qed

theorem fromJSON_type_is_FLOW_witness:
  "json_features json_AB = Some [(''f1'', feature_A), (''f2'', feature_B)] \<and>
   json_type json_AB = Some ''CONTROL'' \<and>
   (\<exists>s1 h1. fromJSON Some ''id-2'' heap_AB json_AB = (Inr s1, h1) \<and>
       get_type s1 = ''FLOW'' \<and> name s1 = ''CONTROL'')"
proof -
  have f: "json_features json_AB = Some [(''f1'', feature_A), (''f2'', feature_B)]"
    and t: "json_type json_AB = Some ''CONTROL''"
    by (simp_all add: scenario_defs)
  from fromJSON_type_is_FLOW [OF f, of Some "''id-2''" heap_AB] f t show ?thesis
    by (cases "fromJSON Some ''id-2'' heap_AB json_AB") (auto split: sum.splits)
qed

end
